theory Spec2Isabelle
  imports Main
begin

section \<open>Python values, dictionaries and exceptions\<close>

text \<open>
  The program is one Python module, \<^verbatim>\<open>main.py\<close>: a class \<^verbatim>\<open>VscanErrorAnalyzer\<close> with a
  constructor and a method \<^verbatim>\<open>scan\<close>, an argument parser and \<^verbatim>\<open>main\<close>. The values that
  travel through it are strings, integers, booleans, \<^verbatim>\<open>None\<close> and one dictionary of
  response headers; the result of \<^verbatim>\<open>scan\<close> is a dictionary literal with string keys.
  A dictionary is an association list in iteration order.
\<close>

datatype pyval =
    PNone
  | PBool bool
  | PInt int
  | PStr string
  | PDict "(string \<times> string) list"

type_synonym pydict = "(string \<times> pyval) list"

text \<open>
  The exception classes that occur. \<^verbatim>\<open>HTTPError\<close>, \<^verbatim>\<open>ConnectionError\<close>, \<^verbatim>\<open>Timeout\<close>
  and \<^verbatim>\<open>SSLError\<close> are the subclasses of \<^verbatim>\<open>requests.exceptions.RequestException\<close>
  that the HTTP client raises; \<^verbatim>\<open>OtherException\<close> stands for any further subclass of
  \<^verbatim>\<open>Exception\<close>. An exception carries the text of \<^verbatim>\<open>str(e)\<close>.
\<close>

datatype exc_class =
    TypeError
  | ValueError
  | KeyError
  | AttributeError
  | HTTPError
  | ConnectionError
  | Timeout
  | SSLError
  | RequestException
  | OtherException

datatype exn = Exn exc_class string

fun is_RequestException :: "exc_class \<Rightarrow> bool" where
  "is_RequestException HTTPError = True"
| "is_RequestException ConnectionError = True"
| "is_RequestException Timeout = True"
| "is_RequestException SSLError = True"
| "is_RequestException RequestException = True"
| "is_RequestException _ = False"

subsection \<open>Formatting\<close>

definition digit_char :: "nat \<Rightarrow> char" where
  "digit_char d = ''0123456789'' ! d"

function str_nat :: "nat \<Rightarrow> string" where
  "str_nat n = (if n < 10 then [digit_char n] else str_nat (n div 10) @ [digit_char (n mod 10)])"
  by pat_completeness auto
termination
  by (relation "measure (\<lambda>n. n)") auto

declare str_nat.simps [simp del]

definition str_int :: "int \<Rightarrow> string" where
  "str_int i = (if i < 0 then CHR ''-'' # str_nat (nat (- i)) else str_nat (nat i))"

definition str_bool :: "bool \<Rightarrow> string" where
  "str_bool b = (if b then ''True'' else ''False'')"

text \<open>
  \<^verbatim>\<open>repr\<close> of a string and of a dictionary of strings, for keys and values without
  quotes, backslashes or non-printable characters. \<^verbatim>\<open>main\<close> never formats a dictionary;
  the case only makes \<open>py_str\<close> total.
\<close>

definition repr_str :: "string \<Rightarrow> string" where
  "repr_str s = [CHR 0x27] @ s @ [CHR 0x27]"

fun join_items :: "string list \<Rightarrow> string" where
  "join_items [] = []"
| "join_items [x] = x"
| "join_items (x # y # ys) = x @ '', '' @ join_items (y # ys)"

definition repr_dict :: "(string \<times> string) list \<Rightarrow> string" where
  "repr_dict d = ''{'' @ join_items (map (\<lambda>(k, v). repr_str k @ '': '' @ repr_str v) d) @ ''}''"

text \<open>What an f-string field \<^verbatim>\<open>{v}\<close> renders: \<^verbatim>\<open>str(v)\<close>.\<close>

fun py_str :: "pyval \<Rightarrow> string" where
  "py_str PNone = ''None''"
| "py_str (PBool b) = str_bool b"
| "py_str (PInt i) = str_int i"
| "py_str (PStr s) = s"
| "py_str (PDict d) = repr_dict d"

subsection \<open>Dictionary operations\<close>

text \<open>\<^verbatim>\<open>d[k]\<close> raises \<^verbatim>\<open>KeyError\<close> on a missing key.\<close>

definition getitem :: "pydict \<Rightarrow> string \<Rightarrow> exn + pyval" where
  "getitem d k = (case map_of d k of None \<Rightarrow> Inl (Exn KeyError (repr_str k)) | Some v \<Rightarrow> Inr v)"

text \<open>Truth value of a dictionary (\<^verbatim>\<open>if result:\<close>): true exactly when it has an entry.\<close>

definition dict_bool :: "pydict \<Rightarrow> bool" where
  "dict_bool d = (d \<noteq> [])"

text \<open>\<^verbatim>\<open>v.items()\<close>: only a dictionary has the method.\<close>

fun items :: "pyval \<Rightarrow> exn + (string \<times> string) list" where
  "items (PDict d) = Inr d"
| "items _ = Inl (Exn AttributeError ''object has no attribute items'')"

text \<open>\<^verbatim>\<open>s.startswith((p1, p2, ...))\<close>: some element of the tuple is a prefix of \<open>s\<close>.\<close>

definition startswith :: "string \<Rightarrow> string list \<Rightarrow> bool" where
  "startswith s ps = list_ex (\<lambda>p. take (length p) s = p) ps"

section \<open>The HTTP client\<close>

text \<open>
  The arguments of the one call \<^verbatim>\<open>requests.get(url, headers=..., timeout=..., verify=...)\<close>.
\<close>

record get_call =
  get_url :: string
  get_headers :: "(string \<times> string) list"
  get_timeout :: int
  get_verify :: bool

text \<open>
  What \<^verbatim>\<open>scan\<close> uses of the response object: the attributes \<^verbatim>\<open>status_code\<close> and
  \<^verbatim>\<open>headers\<close>, and the method \<^verbatim>\<open>raise_for_status()\<close>, which returns normally (\<open>None\<close>)
  or raises (\<open>Some e\<close>).
\<close>

record response =
  status_code :: int
  headers :: "(string \<times> string) list"
  raise_for_status :: "exn option"

text \<open>
  Modelled from the spec: the HTTP client library (\<^verbatim>\<open>requests\<close>) is not part of the
  repository. The spec's design notes say that the raise-for-status step makes genuine
  4xx/5xx responses be caught as exceptions, and the source's comment on the call reads
  "Raise HTTPError for bad responses (4xx or 5xx)". A response object of the library,
  for a status code, a reason phrase, the final URL and the headers: its
  \<^verbatim>\<open>raise_for_status()\<close> raises \<^verbatim>\<open>HTTPError\<close> exactly for the codes 400 to 599, with the
  library's message.
\<close>

definition requests_Response :: "int \<Rightarrow> string \<Rightarrow> string \<Rightarrow> (string \<times> string) list \<Rightarrow> response" where
  "requests_Response code reason url hs =
     \<lparr> status_code = code,
       headers = hs,
       raise_for_status =
         (if 400 \<le> code \<and> code < 500
          then Some (Exn HTTPError (str_int code @ '' Client Error: '' @ reason @ '' for url: '' @ url))
          else if 500 \<le> code \<and> code < 600
          then Some (Exn HTTPError (str_int code @ '' Server Error: '' @ reason @ '' for url: '' @ url))
          else None) \<rparr>"

text \<open>The call returns a response object or raises.\<close>

datatype outcome = Returned response | Raised exn



section \<open>The analyzer\<close>

record analyzer =
  self_url :: string
  self_user_agent :: string
  self_timeout :: int
  self_ignore_ssl_errors :: bool
  self_headers :: "(string \<times> string) list"
  self_error_patterns :: "(int \<times> string) list"

definition error_patterns :: "(int \<times> string) list" where
  "error_patterns =
     [(400, ''Possible input validation issues. Check for malformed requests.''),
      (401, ''Authentication required. Investigate authentication mechanisms and bypasses.''),
      (403, ''Forbidden. Potential directory listing vulnerability or access control misconfiguration.''),
      (404, ''Not Found. Check for information disclosure or path traversal vulnerabilities.''),
      (405, ''Method Not Allowed. Investigate allowed methods and potential for exploitation.''),
      (500, ''Internal Server Error. Check server logs for details. Potential for remote code execution or information disclosure.''),
      (503, ''Service Unavailable. Check for denial-of-service vulnerabilities.'')]"

text \<open>\<^verbatim>\<open>user_agent or default\<close>: \<^verbatim>\<open>None\<close> and the empty string are falsy.\<close>

definition py_or :: "string option \<Rightarrow> string \<Rightarrow> string" where
  "py_or v d = (case v of None \<Rightarrow> d | Some s \<Rightarrow> if s = [] then d else s)"

text \<open>
  The constructor. The first argument is any Python value; \<^verbatim>\<open>isinstance(url, str)\<close>
  holds for \<open>PStr\<close> only.
\<close>

definition VscanErrorAnalyzer_init :: "pyval \<Rightarrow> string option \<Rightarrow> int \<Rightarrow> bool \<Rightarrow> exn + analyzer" where
  "VscanErrorAnalyzer_init url user_agent timeout ignore_ssl_errors =
     (case url of
        PStr u \<Rightarrow>
          if \<not> startswith u [''http://'', ''https://'']
          then Inl (Exn ValueError ''URL must start with http:// or https://'')
          else
            (let ua = py_or user_agent ''vscan-error-code-analyzer/1.0'' in
             Inr \<lparr> self_url = u,
                   self_user_agent = ua,
                   self_timeout = timeout,
                   self_ignore_ssl_errors = ignore_ssl_errors,
                   self_headers = [(''User-Agent'', ua)],
                   self_error_patterns = error_patterns \<rparr>)
      | _ \<Rightarrow> Inl (Exn TypeError ''URL must be a string.''))"

text \<open>The arguments \<^verbatim>\<open>scan\<close> passes to \<^verbatim>\<open>requests.get\<close>.\<close>

definition scan_call :: "analyzer \<Rightarrow> get_call" where
  "scan_call self =
     \<lparr> get_url = self_url self,
       get_headers = self_headers self,
       get_timeout = self_timeout self,
       get_verify = (\<not> self_ignore_ssl_errors self) \<rparr>"

text \<open>
  The two \<^verbatim>\<open>except\<close> clauses of \<^verbatim>\<open>scan\<close>, in their order: \<^verbatim>\<open>RequestException\<close> first,
  then any \<^verbatim>\<open>Exception\<close>.
\<close>

fun scan_except :: "analyzer \<Rightarrow> exn \<Rightarrow> pydict" where
  "scan_except self (Exn c msg) =
     (if is_RequestException c
      then [(''url'', PStr (self_url self)),
            (''status_code'', PNone),
            (''description'', PStr (''Request error: '' @ msg)),
            (''vulnerable'', PBool False),
            (''response_headers'', PDict [])]
      else [(''url'', PStr (self_url self)),
            (''status_code'', PNone),
            (''description'', PStr (''An unexpected error occurred: '' @ msg)),
            (''vulnerable'', PBool False),
            (''response_headers'', PDict [])])"

text \<open>
  \<^verbatim>\<open>scan\<close>: the request, \<^verbatim>\<open>raise_for_status()\<close>, then the lookup of the status code in
  \<^verbatim>\<open>self.error_patterns\<close>. The second argument is the network: what the call returns
  or raises. Log records go to the standard error stream with a timestamp and are not
  part of the model.
\<close>

definition scan :: "analyzer \<Rightarrow> (get_call \<Rightarrow> outcome) \<Rightarrow> pydict" where
  "scan self get =
     (case get (scan_call self) of
        Raised e \<Rightarrow> scan_except self e
      | Returned response \<Rightarrow>
          (case raise_for_status response of
             Some e \<Rightarrow> scan_except self e
           | None \<Rightarrow>
               (let code = status_code response in
                case map_of (self_error_patterns self) code of
                  Some d \<Rightarrow>
                    [(''url'', PStr (self_url self)),
                     (''status_code'', PInt code),
                     (''description'', PStr d),
                     (''vulnerable'', PBool True),
                     (''response_headers'', PDict (headers response))]
                | None \<Rightarrow>
                    [(''url'', PStr (self_url self)),
                     (''status_code'', PInt code),
                     (''description'', PStr ''No known vulnerability associated with this status code.''),
                     (''vulnerable'', PBool False),
                     (''response_headers'', PDict (headers response))])))"

section \<open>The command line and main\<close>

text \<open>
  The options as given on the command line (\<open>None\<close>: the option is absent), and the
  namespace \<^verbatim>\<open>parse_args\<close> makes of them with the defaults of \<^verbatim>\<open>setup_argparse\<close>.
  The flag \<^verbatim>\<open>--verbose\<close> only lowers the level of the logger.
\<close>

record cli =
  opt_url :: string
  opt_user_agent :: "string option"
  opt_timeout :: "int option"
  opt_ignore_ssl :: bool
  opt_verbose :: bool

record args =
  args_url :: string
  args_user_agent :: string
  args_timeout :: int
  args_ignore_ssl :: bool
  args_verbose :: bool

definition parse_args :: "cli \<Rightarrow> args" where
  "parse_args c =
     \<lparr> args_url = opt_url c,
       args_user_agent = (case opt_user_agent c of None \<Rightarrow> ''vscan-error-code-analyzer/1.0'' | Some s \<Rightarrow> s),
       args_timeout = (case opt_timeout c of None \<Rightarrow> 10 | Some t \<Rightarrow> t),
       args_ignore_ssl = opt_ignore_ssl c,
       args_verbose = opt_verbose c \<rparr>"

text \<open>
  What a run of the process leaves: the lines printed to standard output, the exit
  code, the exception that ended it when none of \<^verbatim>\<open>main\<close>'s handlers caught it, and the
  requests that were sent.
\<close>

record process =
  stdout :: "string list"
  exit_code :: int
  uncaught :: "exn option"
  sent :: "get_call list"

text \<open>
  The report of \<^verbatim>\<open>main\<close>: the prints in their order, stopping at the first subscript or
  attribute that raises. The result is the lines printed so far and the exception, if any.
\<close>

definition header_line :: "string \<times> string \<Rightarrow> string" where
  "header_line kv = (case kv of (key, val) \<Rightarrow> ''  '' @ key @ '': '' @ val)"

definition report :: "pydict \<Rightarrow> string list \<times> exn option" where
  "report result =
     (case getitem result ''url'' of
        Inl e \<Rightarrow> ([], Some e)
      | Inr v1 \<Rightarrow>
     (let out1 = [''URL: '' @ py_str v1] in
     (case getitem result ''status_code'' of
        Inl e \<Rightarrow> (out1, Some e)
      | Inr v2 \<Rightarrow>
     (let out2 = out1 @ [''Status Code: '' @ py_str v2] in
     (case getitem result ''description'' of
        Inl e \<Rightarrow> (out2, Some e)
      | Inr v3 \<Rightarrow>
     (let out3 = out2 @ [''Description: '' @ py_str v3] in
     (case getitem result ''vulnerable'' of
        Inl e \<Rightarrow> (out3, Some e)
      | Inr v4 \<Rightarrow>
     (let out4 = out3 @ [''Vulnerable: '' @ py_str v4];
          out5 = out4 @ [''Response Headers:''] in
     (case getitem result ''response_headers'' of
        Inl e \<Rightarrow> (out5, Some e)
      | Inr v5 \<Rightarrow>
     (case items v5 of
        Inl e \<Rightarrow> (out5, Some e)
      | Inr kvs \<Rightarrow> (out5 @ map header_line kvs, None)))))))))))"

text \<open>
  The handlers of \<^verbatim>\<open>main\<close>: \<^verbatim>\<open>ValueError\<close> and \<^verbatim>\<open>TypeError\<close> are printed and the process
  exits with code 1; any other exception leaves \<^verbatim>\<open>main\<close> and the interpreter ends the
  process with code 1.
\<close>

fun main_except :: "string list \<Rightarrow> get_call list \<Rightarrow> exn \<Rightarrow> process" where
  "main_except out reqs (Exn c msg) =
     (if c = ValueError \<or> c = TypeError
      then \<lparr> stdout = out @ [''Error: '' @ msg], exit_code = 1, uncaught = None, sent = reqs \<rparr>
      else \<lparr> stdout = out, exit_code = 1, uncaught = Some (Exn c msg), sent = reqs \<rparr>)"

definition main :: "cli \<Rightarrow> (get_call \<Rightarrow> outcome) \<Rightarrow> process" where
  "main argv get =
     (let args = parse_args argv in
      case VscanErrorAnalyzer_init (PStr (args_url args)) (Some (args_user_agent args))
             (args_timeout args) (args_ignore_ssl args) of
        Inl e \<Rightarrow> main_except [] [] e
      | Inr analyzer \<Rightarrow>
          (let result = scan analyzer get;
               reqs = [scan_call analyzer] in
           if dict_bool result
           then (case report result of
                   (out, Some e) \<Rightarrow> main_except out reqs e
                 | (out, None) \<Rightarrow> \<lparr> stdout = out, exit_code = 0, uncaught = None, sent = reqs \<rparr>)
           else \<lparr> stdout = [''No results found.''], exit_code = 0, uncaught = None, sent = reqs \<rparr>))"


section \<open>Basic facts\<close>

subsection \<open>The constructor\<close>

lemma init_ok:
  "startswith u [''http://'', ''https://''] \<Longrightarrow>
   VscanErrorAnalyzer_init (PStr u) ua t i =
     Inr \<lparr> self_url = u,
           self_user_agent = py_or ua ''vscan-error-code-analyzer/1.0'',
           self_timeout = t,
           self_ignore_ssl_errors = i,
           self_headers = [(''User-Agent'', py_or ua ''vscan-error-code-analyzer/1.0'')],
           self_error_patterns = error_patterns \<rparr>"
  by (simp add: VscanErrorAnalyzer_init_def Let_def)

lemma init_Inr:
  assumes "VscanErrorAnalyzer_init url ua t i = Inr self"
  shows "\<exists>u. url = PStr u \<and> startswith u [''http://'', ''https://''] \<and>
     self = \<lparr> self_url = u,
           self_user_agent = py_or ua ''vscan-error-code-analyzer/1.0'',
           self_timeout = t,
           self_ignore_ssl_errors = i,
           self_headers = [(''User-Agent'', py_or ua ''vscan-error-code-analyzer/1.0'')],
           self_error_patterns = error_patterns \<rparr>"
  using assms by (cases url) (auto simp: VscanErrorAnalyzer_init_def Let_def split: if_splits)

lemma init_bad_prefix:
  "\<not> startswith u [''http://'', ''https://''] \<Longrightarrow>
   VscanErrorAnalyzer_init (PStr u) ua t i = Inl (Exn ValueError ''URL must start with http:// or https://'')"
  by (simp add: VscanErrorAnalyzer_init_def)

subsection \<open>The result dictionary and its report\<close>

lemma getitem_result:
  "getitem [(''url'', a), (''status_code'', b), (''description'', c), (''vulnerable'', v), (''response_headers'', h)] ''url'' = Inr a"
  "getitem [(''url'', a), (''status_code'', b), (''description'', c), (''vulnerable'', v), (''response_headers'', h)] ''status_code'' = Inr b"
  "getitem [(''url'', a), (''status_code'', b), (''description'', c), (''vulnerable'', v), (''response_headers'', h)] ''description'' = Inr c"
  "getitem [(''url'', a), (''status_code'', b), (''description'', c), (''vulnerable'', v), (''response_headers'', h)] ''vulnerable'' = Inr v"
  "getitem [(''url'', a), (''status_code'', b), (''description'', c), (''vulnerable'', v), (''response_headers'', h)] ''response_headers'' = Inr h"
  by (simp_all add: getitem_def)

lemma report_result:
  "report [(''url'', a), (''status_code'', b), (''description'', c), (''vulnerable'', v), (''response_headers'', PDict hs)] =
     ([''URL: '' @ py_str a, ''Status Code: '' @ py_str b, ''Description: '' @ py_str c,
       ''Vulnerable: '' @ py_str v, ''Response Headers:''] @ map header_line hs, None)"
  unfolding report_def getitem_result by (simp add: Let_def)

lemma scan_except_shape:
  "\<exists>d. scan_except self e =
     [(''url'', PStr (self_url self)), (''status_code'', PNone), (''description'', PStr d),
      (''vulnerable'', PBool False), (''response_headers'', PDict [])]"
  by (cases e) simp

lemma scan_shape:
  "\<exists>sc d v hs. scan self get =
     [(''url'', PStr (self_url self)), (''status_code'', sc), (''description'', PStr d),
      (''vulnerable'', PBool v), (''response_headers'', PDict hs)]"
proof (cases "get (scan_call self)")
  case (Raised e)
  then show ?thesis using scan_except_shape [of self e] by (auto simp: scan_def)
next
  case (Returned r)
  show ?thesis
  proof (cases "raise_for_status r")
    case (Some e)
    with Returned show ?thesis using scan_except_shape [of self e] by (auto simp: scan_def)
  next
    case None
    with Returned show ?thesis by (cases "map_of (self_error_patterns self) (status_code r)") (auto simp: scan_def Let_def)
  qed
qed

lemma main_of_init:
  assumes "VscanErrorAnalyzer_init (PStr (args_url (parse_args argv))) (Some (args_user_agent (parse_args argv)))
             (args_timeout (parse_args argv)) (args_ignore_ssl (parse_args argv)) = Inr self"
  shows "main argv get = \<lparr> stdout = fst (report (scan self get)), exit_code = 0, uncaught = None, sent = [scan_call self] \<rparr>"
proof -
  obtain sc d v hs where s: "scan self get =
     [(''url'', PStr (self_url self)), (''status_code'', sc), (''description'', PStr d),
      (''vulnerable'', PBool v), (''response_headers'', PDict hs)]"
    using scan_shape [of self get] by blast
  show ?thesis
    unfolding main_def Let_def assms by (simp add: s report_result dict_bool_def)
qed

lemma main_valid:
  assumes "startswith (opt_url argv) [''http://'', ''https://'']"
  shows "main argv get =
     (let self = \<lparr> self_url = opt_url argv,
           self_user_agent = py_or (Some (args_user_agent (parse_args argv))) ''vscan-error-code-analyzer/1.0'',
           self_timeout = args_timeout (parse_args argv),
           self_ignore_ssl_errors = opt_ignore_ssl argv,
           self_headers = [(''User-Agent'', py_or (Some (args_user_agent (parse_args argv))) ''vscan-error-code-analyzer/1.0'')],
           self_error_patterns = error_patterns \<rparr>
      in \<lparr> stdout = fst (report (scan self get)), exit_code = 0, uncaught = None, sent = [scan_call self] \<rparr>)"
proof -
  have a: "args_url (parse_args argv) = opt_url argv" "args_ignore_ssl (parse_args argv) = opt_ignore_ssl argv"
    by (simp_all add: parse_args_def)
  show ?thesis
    unfolding Let_def
    by (rule main_of_init) (simp add: a init_ok [OF assms])
qed






lemma error_patterns_keys:
  "(map_of error_patterns code = None) = (code \<notin> {400, 401, 403, 404, 405, 500, 503})"
  by (simp add: error_patterns_def)

lemma args_of_cli:
  "args_url (parse_args argv) = opt_url argv"
  "args_ignore_ssl (parse_args argv) = opt_ignore_ssl argv"
  "args_timeout (parse_args argv) = (case opt_timeout argv of None \<Rightarrow> 10 | Some t \<Rightarrow> t)"
  "args_user_agent (parse_args argv) =
     (case opt_user_agent argv of None \<Rightarrow> ''vscan-error-code-analyzer/1.0'' | Some s \<Rightarrow> s)"
  by (simp_all add: parse_args_def)



section \<open>Responses with an error status\<close>

text \<open>
  C1. The claim: whenever the exchange completes, \<^verbatim>\<open>scan\<close> returns the numeric status
  code and the response headers, and a 4xx/5xx status never leads to the error result.
  The code does otherwise: \<^verbatim>\<open>raise_for_status()\<close> is called before the status code is
  read. For a 404 response of the library, with two headers, \<^verbatim>\<open>scan\<close> returns the result
  of its first \<^verbatim>\<open>except\<close> clause: \<^verbatim>\<open>status_code\<close> \<^verbatim>\<open>None\<close>, no headers, and the
  \<^verbatim>\<open>HTTPError\<close> text as description.
\<close>

theorem scan_404_error_branch:
  "(case VscanErrorAnalyzer_init (PStr ''https://example.com'') None 10 False of
      Inl e \<Rightarrow> False
    | Inr self \<Rightarrow>
        scan self (\<lambda>call. Returned (requests_Response 404 ''Not Found'' ''https://example.com/''
                                      [(''Server'', ''nginx''), (''Content-Type'', ''text/html'')])) =
          [(''url'', PStr ''https://example.com''),
           (''status_code'', PNone),
           (''description'', PStr ''Request error: 404 Client Error: Not Found for url: https://example.com/''),
           (''vulnerable'', PBool False),
           (''response_headers'', PDict [])])"
  by code_simp

text \<open>
  C2. The claim: a scan that receives one of the seven status codes of
  \<^verbatim>\<open>error_patterns\<close> yields \<^verbatim>\<open>vulnerable\<close> \<^verbatim>\<open>True\<close> and the description stored for the
  code. The code does otherwise: all seven codes lie in 400..599, so for each of them a
  response of the library raises in \<^verbatim>\<open>raise_for_status()\<close>, and the result has
  \<^verbatim>\<open>vulnerable\<close> \<^verbatim>\<open>False\<close>, \<^verbatim>\<open>status_code\<close> \<^verbatim>\<open>None\<close> and a description that is not
  the table's.
\<close>

theorem scan_table_codes_not_vulnerable:
  "(case VscanErrorAnalyzer_init (PStr ''https://example.com'') None 10 False of
      Inl e \<Rightarrow> False
    | Inr self \<Rightarrow>
        list_all (\<lambda>(code, d).
            getitem (scan self (\<lambda>call. Returned (requests_Response code ''Error'' ''https://example.com/'' [])))
              ''vulnerable'' = Inr (PBool False)
          \<and> getitem (scan self (\<lambda>call. Returned (requests_Response code ''Error'' ''https://example.com/'' [])))
              ''status_code'' = Inr PNone
          \<and> getitem (scan self (\<lambda>call. Returned (requests_Response code ''Error'' ''https://example.com/'' [])))
              ''description'' \<noteq> Inr (PStr d))
          error_patterns)"
  by code_simp

text \<open>
  C3. The claim: a status code outside the table, 418 for example, yields
  \<^verbatim>\<open>vulnerable\<close> \<^verbatim>\<open>False\<close> and the description "No known vulnerability associated with
  this status code.". For 418 the code does otherwise: the response raises in
  \<^verbatim>\<open>raise_for_status()\<close> and the description is the \<^verbatim>\<open>HTTPError\<close> text.
\<close>

theorem scan_418_description:
  "(case VscanErrorAnalyzer_init (PStr ''https://example.com'') None 10 False of
      Inl e \<Rightarrow> False
    | Inr self \<Rightarrow>
        getitem (scan self (\<lambda>call. Returned (requests_Response 418 ''I'm a teapot'' ''https://example.com/'' [])))
          ''description'' =
          Inr (PStr ''Request error: 418 Client Error: I'm a teapot for url: https://example.com/''))"
  by code_simp

section \<open>The report for a 403 response\<close>

text \<open>
  C6. The claim: for the URL "https://example.com" and a 403 response with the header
  Server: nginx, the report has the lines "Status Code: 403", the description of 403
  from the table, "Vulnerable: True" and "  Server: nginx". The code prints none of
  them: the 403 response raises in \<^verbatim>\<open>raise_for_status()\<close>, and the report is that of
  the error result.
\<close>

theorem main_403_report:
  "stdout (main \<lparr> opt_url = ''https://example.com'', opt_user_agent = None, opt_timeout = None,
                   opt_ignore_ssl = False, opt_verbose = False \<rparr>
      (\<lambda>call. Returned (requests_Response 403 ''Forbidden'' ''https://example.com/'' [(''Server'', ''nginx'')]))) =
     [''URL: https://example.com'',
      ''Status Code: None'',
      ''Description: Request error: 403 Client Error: Forbidden for url: https://example.com/'',
      ''Vulnerable: False'',
      ''Response Headers:'']"
  by code_simp

section \<open>Input validation\<close>

text \<open>
  C4. A URL value that is not a string that starts with "http://" or "https://" makes
  the constructor fail: with \<^verbatim>\<open>TypeError\<close> when it is not a string, with
  \<^verbatim>\<open>ValueError\<close> when it is a string without one of the prefixes. When it is the URL
  of the command line, \<^verbatim>\<open>main\<close> prints the error, the process ends with exit code 1,
  and no request was sent.
\<close>

theorem invalid_url_rejected:
  assumes "\<not> (\<exists>u. url = PStr u \<and> startswith u [''http://'', ''https://''])"
  shows "VscanErrorAnalyzer_init url user_agent timeout ignore_ssl_errors =
           Inl (case url of
                  PStr u \<Rightarrow> Exn ValueError ''URL must start with http:// or https://''
                | _ \<Rightarrow> Exn TypeError ''URL must be a string.'')
       \<and> (url = PStr (opt_url argv) \<longrightarrow>
            main argv get =
              \<lparr> stdout = [''Error: URL must start with http:// or https://''],
                exit_code = 1, uncaught = None, sent = [] \<rparr>)"
proof (cases url)
  case (PStr u)
  with assms have bad: "\<not> startswith u [''http://'', ''https://'']" by simp
  have "url = PStr (opt_url argv) \<Longrightarrow> main argv get =
              \<lparr> stdout = [''Error: URL must start with http:// or https://''],
                exit_code = 1, uncaught = None, sent = [] \<rparr>"
    using bad PStr by (simp add: main_def Let_def args_of_cli(1) init_bad_prefix)
  then show ?thesis using PStr bad by (simp add: init_bad_prefix)
qed (simp_all add: VscanErrorAnalyzer_init_def)

theorem invalid_url_rejected_witness:
  "VscanErrorAnalyzer_init (PStr ''ftp://example.com'') None 10 False =
     Inl (Exn ValueError ''URL must start with http:// or https://'')
   \<and> main \<lparr> opt_url = ''ftp://example.com'', opt_user_agent = None, opt_timeout = None,
            opt_ignore_ssl = False, opt_verbose = False \<rparr>
        (\<lambda>call. Returned (requests_Response 200 ''OK'' ''ftp://example.com'' [])) =
       \<lparr> stdout = [''Error: URL must start with http:// or https://''],
         exit_code = 1, uncaught = None, sent = [] \<rparr>
   \<and> VscanErrorAnalyzer_init (PInt 42) None 10 False = Inl (Exn TypeError ''URL must be a string.'')"
proof -
  have h1: "\<not> (\<exists>u. PStr ''ftp://example.com'' = PStr u \<and> startswith u [''http://'', ''https://''])"
    by (simp add: startswith_def)
  have h2: "\<not> (\<exists>u. PInt 42 = PStr u \<and> startswith u [''http://'', ''https://''])"
    by simp
  show ?thesis
    using invalid_url_rejected [OF h1, where user_agent = None and timeout = 10 and ignore_ssl_errors = False
            and argv = "\<lparr> opt_url = ''ftp://example.com'', opt_user_agent = None, opt_timeout = None,
                           opt_ignore_ssl = False, opt_verbose = False \<rparr>"
            and get = "\<lambda>call. Returned (requests_Response 200 ''OK'' ''ftp://example.com'' [])"]
          invalid_url_rejected [OF h2, where user_agent = None and timeout = 10 and ignore_ssl_errors = False
            and argv = "\<lparr> opt_url = ''ftp://example.com'', opt_user_agent = None, opt_timeout = None,
                           opt_ignore_ssl = False, opt_verbose = False \<rparr>"
            and get = "\<lambda>call. Returned (requests_Response 200 ''OK'' ''ftp://example.com'' [])"]
    by simp
qed

section \<open>Transport failures\<close>

text \<open>
  C5. A transport-level failure of the request (\<^verbatim>\<open>ConnectionError\<close> for a DNS failure or
  a refused connection, \<^verbatim>\<open>Timeout\<close>, \<^verbatim>\<open>SSLError\<close> for a failed handshake) is caught in
  \<^verbatim>\<open>scan\<close>: the result has \<^verbatim>\<open>status_code\<close> \<^verbatim>\<open>None\<close>, \<^verbatim>\<open>vulnerable\<close> \<^verbatim>\<open>False\<close>, no headers
  and the description "Request error: " followed by the error text. \<^verbatim>\<open>main\<close> prints the
  report of that result and the process ends with exit code 0.
\<close>

theorem transport_failure_reported:
  assumes cls: "c = ConnectionError \<or> c = Timeout \<or> c = SSLError"
      and net: "get (scan_call self) = Raised (Exn c msg)"
  shows "scan self get =
           [(''url'', PStr (self_url self)),
            (''status_code'', PNone),
            (''description'', PStr (''Request error: '' @ msg)),
            (''vulnerable'', PBool False),
            (''response_headers'', PDict [])]
       \<and> (startswith (opt_url argv) [''http://'', ''https://''] \<longrightarrow>
            stdout (main argv (\<lambda>call. Raised (Exn c msg))) =
              [''URL: '' @ opt_url argv,
               ''Status Code: None'',
               ''Description: Request error: '' @ msg,
               ''Vulnerable: False'',
               ''Response Headers:'']
          \<and> exit_code (main argv (\<lambda>call. Raised (Exn c msg))) = 0
          \<and> uncaught (main argv (\<lambda>call. Raised (Exn c msg))) = None)"
proof -
  have rq: "is_RequestException c" using cls by auto
  have a: "scan self get = [(''url'', PStr (self_url self)),
            (''status_code'', PNone),
            (''description'', PStr (''Request error: '' @ msg)),
            (''vulnerable'', PBool False),
            (''response_headers'', PDict [])]"
    using rq net by (simp add: scan_def)
  have b: "\<And>s. scan s (\<lambda>call. Raised (Exn c msg)) = [(''url'', PStr (self_url s)),
            (''status_code'', PNone),
            (''description'', PStr (''Request error: '' @ msg)),
            (''vulnerable'', PBool False),
            (''response_headers'', PDict [])]"
    using rq by (simp add: scan_def)
  show ?thesis
    using a by (simp add: main_valid Let_def b report_result str_bool_def)
qed

theorem transport_failure_reported_witness:
  "scan \<lparr> self_url = ''https://example.com'', self_user_agent = ''agent'', self_timeout = 5,
          self_ignore_ssl_errors = False, self_headers = [(''User-Agent'', ''agent'')],
          self_error_patterns = error_patterns \<rparr>
     (\<lambda>call. Raised (Exn Timeout ''Read timed out.'')) =
     [(''url'', PStr ''https://example.com''),
      (''status_code'', PNone),
      (''description'', PStr ''Request error: Read timed out.''),
      (''vulnerable'', PBool False),
      (''response_headers'', PDict [])]
   \<and> stdout (main \<lparr> opt_url = ''https://example.com'', opt_user_agent = None, opt_timeout = Some 5,
                    opt_ignore_ssl = False, opt_verbose = False \<rparr>
               (\<lambda>call. Raised (Exn Timeout ''Read timed out.''))) =
       [''URL: https://example.com'',
        ''Status Code: None'',
        ''Description: Request error: Read timed out.'',
        ''Vulnerable: False'',
        ''Response Headers:'']
   \<and> exit_code (main \<lparr> opt_url = ''https://example.com'', opt_user_agent = None, opt_timeout = Some 5,
                    opt_ignore_ssl = False, opt_verbose = False \<rparr>
               (\<lambda>call. Raised (Exn Timeout ''Read timed out.''))) = 0"
proof -
  have h1: "Timeout = ConnectionError \<or> Timeout = Timeout \<or> Timeout = SSLError" by simp
  have h2: "(\<lambda>call. Raised (Exn Timeout ''Read timed out.''))
      (scan_call \<lparr> self_url = ''https://example.com'', self_user_agent = ''agent'', self_timeout = 5,
          self_ignore_ssl_errors = False, self_headers = [(''User-Agent'', ''agent'')],
          self_error_patterns = error_patterns \<rparr>) = Raised (Exn Timeout ''Read timed out.'')" by simp
  have h3: "startswith (opt_url \<lparr> opt_url = ''https://example.com'', opt_user_agent = None, opt_timeout = Some 5,
                    opt_ignore_ssl = False, opt_verbose = False \<rparr>) [''http://'', ''https://'']"
    by (simp add: startswith_def)
  show ?thesis
    using transport_failure_reported [OF h1 h2,
        where argv = "\<lparr> opt_url = ''https://example.com'', opt_user_agent = None, opt_timeout = Some 5,
                    opt_ignore_ssl = False, opt_verbose = False \<rparr>"] h3
    by simp
qed

section \<open>The request that is sent\<close>






section \<open>The result of a scan\<close>

text \<open>
  C9. Every result of \<^verbatim>\<open>scan\<close>, for an analyzer made by the constructor and any behaviour
  of the network and of the response object, has the five entries, and:
  \<^verbatim>\<open>vulnerable\<close> is true exactly when \<^verbatim>\<open>status_code\<close> is one of the seven keys of the
  table; when \<^verbatim>\<open>vulnerable\<close> is true, \<^verbatim>\<open>status_code\<close> is a number and \<^verbatim>\<open>description\<close>
  is the table's entry for it; when \<^verbatim>\<open>status_code\<close> is \<^verbatim>\<open>None\<close>, \<^verbatim>\<open>vulnerable\<close> is
  false and \<^verbatim>\<open>response_headers\<close> is empty.
\<close>

theorem scan_result_invariant:
  assumes "VscanErrorAnalyzer_init url user_agent timeout ignore_ssl_errors = Inr self"
  shows "\<exists>sc d v hs.
           scan self get =
             [(''url'', PStr (self_url self)),
              (''status_code'', sc),
              (''description'', PStr d),
              (''vulnerable'', PBool v),
              (''response_headers'', PDict hs)]
         \<and> (v \<longleftrightarrow> (\<exists>code. sc = PInt code \<and> code \<in> {400, 401, 403, 404, 405, 500, 503}))
         \<and> (v \<longrightarrow> (\<exists>code. sc = PInt code \<and> map_of error_patterns code = Some d))
         \<and> (sc = PNone \<longrightarrow> \<not> v \<and> hs = [])"
proof -
  have tab: "self_error_patterns self = error_patterns"
    using init_Inr [OF assms] by auto
  show ?thesis
  proof (cases "get (scan_call self)")
    case (Raised e)
    obtain d where "scan_except self e =
       [(''url'', PStr (self_url self)), (''status_code'', PNone), (''description'', PStr d),
        (''vulnerable'', PBool False), (''response_headers'', PDict [])]"
      using scan_except_shape by blast
    with Raised show ?thesis by (simp add: scan_def)
  next
    case (Returned r)
    show ?thesis
    proof (cases "raise_for_status r")
      case (Some e)
      obtain d where "scan_except self e =
         [(''url'', PStr (self_url self)), (''status_code'', PNone), (''description'', PStr d),
          (''vulnerable'', PBool False), (''response_headers'', PDict [])]"
        using scan_except_shape by blast
      with Returned Some show ?thesis by (simp add: scan_def)
    next
      case None
      show ?thesis
      proof (cases "map_of error_patterns (status_code r)")
        case miss: None
        then have "status_code r \<notin> {400, 401, 403, 404, 405, 500, 503}"
          using error_patterns_keys [of "status_code r"] by simp
        with Returned None miss show ?thesis by (simp add: scan_def tab)
      next
        case (Some d)
        then have "status_code r \<in> {400, 401, 403, 404, 405, 500, 503}"
          using error_patterns_keys [of "status_code r"] by simp
        with Returned None Some show ?thesis by (simp add: scan_def tab)
      qed
    qed
  qed
qed


theorem scan_result_invariant_witness:
  "VscanErrorAnalyzer_init (PStr ''https://example.com'') None 10 False =
     Inr \<lparr> self_url = ''https://example.com'',
           self_user_agent = ''vscan-error-code-analyzer/1.0'',
           self_timeout = 10,
           self_ignore_ssl_errors = False,
           self_headers = [(''User-Agent'', ''vscan-error-code-analyzer/1.0'')],
           self_error_patterns = error_patterns \<rparr>
   \<and> scan \<lparr> self_url = ''https://example.com'',
             self_user_agent = ''vscan-error-code-analyzer/1.0'',
             self_timeout = 10,
             self_ignore_ssl_errors = False,
             self_headers = [(''User-Agent'', ''vscan-error-code-analyzer/1.0'')],
             self_error_patterns = error_patterns \<rparr>
        (\<lambda>call. Returned \<lparr> status_code = 403, headers = [(''Server'', ''nginx'')],
                             raise_for_status = None \<rparr>) =
       [(''url'', PStr ''https://example.com''),
        (''status_code'', PInt 403),
        (''description'', PStr ''Forbidden. Potential directory listing vulnerability or access control misconfiguration.''),
        (''vulnerable'', PBool True),
        (''response_headers'', PDict [(''Server'', ''nginx'')])]
   \<and> map_of error_patterns 403 =
       Some ''Forbidden. Potential directory listing vulnerability or access control misconfiguration.''
   \<and> scan \<lparr> self_url = ''https://example.com'',
             self_user_agent = ''vscan-error-code-analyzer/1.0'',
             self_timeout = 10,
             self_ignore_ssl_errors = False,
             self_headers = [(''User-Agent'', ''vscan-error-code-analyzer/1.0'')],
             self_error_patterns = error_patterns \<rparr>
        (\<lambda>call. Raised (Exn ConnectionError ''Connection refused'')) =
       [(''url'', PStr ''https://example.com''),
        (''status_code'', PNone),
        (''description'', PStr ''Request error: Connection refused''),
        (''vulnerable'', PBool False),
        (''response_headers'', PDict [])]"
proof -
  let ?S = "\<lparr> self_url = ''https://example.com'',
             self_user_agent = ''vscan-error-code-analyzer/1.0'',
             self_timeout = 10,
             self_ignore_ssl_errors = False,
             self_headers = [(''User-Agent'', ''vscan-error-code-analyzer/1.0'')],
             self_error_patterns = error_patterns \<rparr>"
  let ?G1 = "\<lambda>call :: get_call. Returned \<lparr> status_code = 403, headers = [(''Server'', ''nginx'')],
                             raise_for_status = None \<rparr>"
  let ?G2 = "\<lambda>call :: get_call. Raised (Exn ConnectionError ''Connection refused'')"
  have i: "VscanErrorAnalyzer_init (PStr ''https://example.com'') None 10 False = Inr ?S"
    by (simp add: VscanErrorAnalyzer_init_def startswith_def py_or_def Let_def)
  have e1: "scan ?S ?G1 =
       [(''url'', PStr ''https://example.com''),
        (''status_code'', PInt 403),
        (''description'', PStr ''Forbidden. Potential directory listing vulnerability or access control misconfiguration.''),
        (''vulnerable'', PBool True),
        (''response_headers'', PDict [(''Server'', ''nginx'')])]"
    by code_simp
  have e2: "scan ?S ?G2 =
       [(''url'', PStr ''https://example.com''),
        (''status_code'', PNone),
        (''description'', PStr ''Request error: Connection refused''),
        (''vulnerable'', PBool False),
        (''response_headers'', PDict [])]"
    by code_simp
  from scan_result_invariant [OF i, of ?G1] obtain sc d v hs where
    r: "scan ?S ?G1 =
          [(''url'', PStr (self_url ?S)), (''status_code'', sc), (''description'', PStr d),
           (''vulnerable'', PBool v), (''response_headers'', PDict hs)]"
    and vd: "v \<longrightarrow> (\<exists>code. sc = PInt code \<and> map_of error_patterns code = Some d)"
    by blast
  from r have "sc = PInt 403" and "v"
    and "d = ''Forbidden. Potential directory listing vulnerability or access control misconfiguration.''"
    unfolding e1 by simp_all
  with vd have t: "map_of error_patterns 403 =
       Some ''Forbidden. Potential directory listing vulnerability or access control misconfiguration.''"
    by simp
  show ?thesis
    unfolding i e1 e2 t by simp
qed

text \<open>
  C10. \<^verbatim>\<open>scan\<close> returns a dictionary that is true as a condition, whatever the call
  returns or raises. So after a successful construction \<^verbatim>\<open>main\<close> prints the report of
  the result of the scan (the five lines, then one line for each header), never
  the line "No results found.", no exception leaves \<^verbatim>\<open>main\<close>, and the exit code is 0.
\<close>

theorem scan_always_returns_result:
  "dict_bool (scan self get)
   \<and> (startswith (opt_url argv) [''http://'', ''https://''] \<longrightarrow>
        (\<exists>analyzer sc d v hs.
            VscanErrorAnalyzer_init (PStr (opt_url argv)) (Some (args_user_agent (parse_args argv)))
              (args_timeout (parse_args argv)) (opt_ignore_ssl argv) = Inr analyzer
          \<and> scan analyzer get =
              [(''url'', PStr (opt_url argv)),
               (''status_code'', sc),
               (''description'', PStr d),
               (''vulnerable'', PBool v),
               (''response_headers'', PDict hs)]
          \<and> stdout (main argv get) =
              [''URL: '' @ opt_url argv,
               ''Status Code: '' @ py_str sc,
               ''Description: '' @ d,
               ''Vulnerable: '' @ str_bool v,
               ''Response Headers:''] @ map header_line hs)
      \<and> ''No results found.'' \<notin> set (stdout (main argv get))
      \<and> exit_code (main argv get) = 0
      \<and> uncaught (main argv get) = None)"
proof -
  have truthy: "dict_bool (scan self get)"
    using scan_shape [of self get] by (auto simp: dict_bool_def)
  have run: "(\<exists>analyzer sc d v hs.
            VscanErrorAnalyzer_init (PStr (opt_url argv)) (Some (args_user_agent (parse_args argv)))
              (args_timeout (parse_args argv)) (opt_ignore_ssl argv) = Inr analyzer
          \<and> scan analyzer get =
              [(''url'', PStr (opt_url argv)),
               (''status_code'', sc),
               (''description'', PStr d),
               (''vulnerable'', PBool v),
               (''response_headers'', PDict hs)]
          \<and> stdout (main argv get) =
              [''URL: '' @ opt_url argv,
               ''Status Code: '' @ py_str sc,
               ''Description: '' @ d,
               ''Vulnerable: '' @ str_bool v,
               ''Response Headers:''] @ map header_line hs)
      \<and> ''No results found.'' \<notin> set (stdout (main argv get))
      \<and> exit_code (main argv get) = 0
      \<and> uncaught (main argv get) = None"
    if ok: "startswith (opt_url argv) [''http://'', ''https://'']"
  proof -
    define analyzer where "analyzer =
       \<lparr> self_url = opt_url argv,
         self_user_agent = py_or (Some (args_user_agent (parse_args argv))) ''vscan-error-code-analyzer/1.0'',
         self_timeout = args_timeout (parse_args argv),
         self_ignore_ssl_errors = opt_ignore_ssl argv,
         self_headers = [(''User-Agent'', py_or (Some (args_user_agent (parse_args argv))) ''vscan-error-code-analyzer/1.0'')],
         self_error_patterns = error_patterns \<rparr>"
    have i: "VscanErrorAnalyzer_init (PStr (opt_url argv)) (Some (args_user_agent (parse_args argv)))
              (args_timeout (parse_args argv)) (opt_ignore_ssl argv) = Inr analyzer"
      unfolding analyzer_def using ok by (rule init_ok)
    have u: "self_url analyzer = opt_url argv" by (simp add: analyzer_def)
    obtain sc d v hs where s: "scan analyzer get =
       [(''url'', PStr (opt_url argv)), (''status_code'', sc), (''description'', PStr d),
        (''vulnerable'', PBool v), (''response_headers'', PDict hs)]"
      using scan_shape [of analyzer get] unfolding u by blast
    have m: "main argv get =
       \<lparr> stdout = fst (report (scan analyzer get)), exit_code = 0, uncaught = None,
         sent = [scan_call analyzer] \<rparr>"
      using main_valid [OF ok, of get] by (simp add: Let_def analyzer_def)
    have out: "stdout (main argv get) =
              [''URL: '' @ opt_url argv,
               ''Status Code: '' @ py_str sc,
               ''Description: '' @ d,
               ''Vulnerable: '' @ str_bool v,
               ''Response Headers:''] @ map header_line hs"
      by (simp add: m s report_result)
    have nf: "''No results found.'' \<notin> set (stdout (main argv get))"
      unfolding out by (auto simp: header_line_def)
    from i s out nf m show ?thesis by auto
  qed
  from truthy run show ?thesis by blast
qed

theorem scan_always_returns_result_witness:
  "dict_bool (scan \<lparr> self_url = ''https://example.com'', self_user_agent = ''agent'', self_timeout = 10,
                     self_ignore_ssl_errors = False, self_headers = [(''User-Agent'', ''agent'')],
                     self_error_patterns = error_patterns \<rparr>
                (\<lambda>call. Raised (Exn OtherException ''boom'')))
   \<and> stdout (main \<lparr> opt_url = ''https://example.com'', opt_user_agent = None, opt_timeout = None,
                    opt_ignore_ssl = False, opt_verbose = False \<rparr>
               (\<lambda>call. Raised (Exn OtherException ''boom''))) =
       [''URL: https://example.com'',
        ''Status Code: None'',
        ''Description: An unexpected error occurred: boom'',
        ''Vulnerable: False'',
        ''Response Headers:'']
   \<and> exit_code (main \<lparr> opt_url = ''https://example.com'', opt_user_agent = None, opt_timeout = None,
                    opt_ignore_ssl = False, opt_verbose = False \<rparr>
               (\<lambda>call. Raised (Exn OtherException ''boom''))) = 0
   \<and> uncaught (main \<lparr> opt_url = ''https://example.com'', opt_user_agent = None, opt_timeout = None,
                    opt_ignore_ssl = False, opt_verbose = False \<rparr>
               (\<lambda>call. Raised (Exn OtherException ''boom''))) = None"
proof -
  let ?argv = "\<lparr> opt_url = ''https://example.com'', opt_user_agent = None, opt_timeout = None,
                    opt_ignore_ssl = False, opt_verbose = False \<rparr>"
  let ?G = "\<lambda>call :: get_call. Raised (Exn OtherException ''boom'')"
  have h: "startswith (opt_url ?argv) [''http://'', ''https://'']" by (simp add: startswith_def)
  have e: "stdout (main ?argv ?G) =
       [''URL: https://example.com'',
        ''Status Code: None'',
        ''Description: An unexpected error occurred: boom'',
        ''Vulnerable: False'',
        ''Response Headers:'']"
    by code_simp
  note t = scan_always_returns_result [where argv = ?argv and get = ?G
      and self = "\<lparr> self_url = ''https://example.com'', self_user_agent = ''agent'', self_timeout = 10,
                     self_ignore_ssl_errors = False, self_headers = [(''User-Agent'', ''agent'')],
                     self_error_patterns = error_patterns \<rparr>"]
  from t have a: "dict_bool (scan \<lparr> self_url = ''https://example.com'', self_user_agent = ''agent'', self_timeout = 10,
                     self_ignore_ssl_errors = False, self_headers = [(''User-Agent'', ''agent'')],
                     self_error_patterns = error_patterns \<rparr> ?G)" by (rule conjunct1)
  from t [THEN conjunct2, rule_format, OF h]
  have b: "exit_code (main ?argv ?G) = 0" and c: "uncaught (main ?argv ?G) = None"
    by blast+
  show ?thesis using a b c e by blast
qed

end
